theory Spec2Isabelle
  imports Complex_Main "HOL-Library.Multiset" "HOL-Library.AList"
begin

section \<open>Data model\<close>

text \<open>
  The ledger of the transaction tracker: the rows of the three tables of the Prisma
  schema and the entries the controller keeps in Redis.

  An instant is the time value of a JavaScript \<open>Date\<close>: whole milliseconds since the epoch.
  An amount is a \<open>DOUBLE PRECISION\<close> column and a JavaScript number, that is an IEEE 754
  binary64 value. A finite double is carried as the real number it denotes, and every
  arithmetic operation of the source rounds its result to a double (next section). The
  infinities and \<open>NaN\<close> are not values of the model.
\<close>

type_synonym instant = int

datatype TransactionType = IN | OUT

record Transaction =
  txn_id :: int
  timestamp :: instant
  txn_type :: TransactionType
  amount :: real

record InvalidTransaction =
  transactionId :: int
  reason :: string

record DailySummary =
  balance :: real
  percentChange :: real
  transactionCount :: nat
  inAmount :: real
  outAmount :: real

record TypeStats =
  count_of :: nat
  totalAmount :: real
  averageAmount :: real
  maxAmount :: real
  minAmount :: real

record Stats =
  totalTransactions :: nat
  inTransactions :: TypeStats
  outTransactions :: TypeStats
  currentBalance :: real

text \<open>
  The state the controller and the utilities work on. The table \<open>Transaction\<close> is the list
  \<open>transactions\<close> in insertion order, \<open>nextId\<close> is the value the \<open>SERIAL\<close> column hands out
  next. The unique column \<open>date\<close> of \<open>DailySummary\<close> is a \<open>DATE\<close>: \<open>dailySummaries\<close> is keyed by
  the calendar date the column holds, counted in days since 1970-01-01. The Redis keys
  \<open>balance:<ISO instant>\<close> are the association list \<open>balanceCache\<close> keyed by the instant, the
  keys \<open>invalid_transaction_count\<close> and \<open>transaction_stats\<close> are the two optional fields.
  Redis is modelled as a store that answers: the \<open>catch\<close> blocks around its calls, which only
  log, are not reached, and the expiry of an entry (\<open>setEx\<close>) is not modelled.
\<close>

record State =
  transactions :: "Transaction list"
  nextId :: int
  invalidTransactions :: "InvalidTransaction list"
  dailySummaries :: "(int \<times> DailySummary) list"
  balanceCache :: "(instant \<times> real) list"
  invalidCountCache :: "nat option"
  statsCache :: "Stats option"

section \<open>Double-precision arithmetic\<close>

text \<open>
  \<open>bitLength n\<close> is the number of binary digits of a positive integer, \<open>pow2 q\<close> is \<open>2\<close> to the
  power \<open>q\<close>, and \<open>binaryExponent x\<close> is the exponent \<open>e\<close> with \<open>2 ^ e \<le> |x| < 2 ^ (e + 1)\<close>.
\<close>

function bitLength :: "int \<Rightarrow> nat" where
  "bitLength n = (if n \<le> 0 then 0 else Suc (bitLength (n div 2)))"
  by pat_completeness auto
termination
  by (relation "measure nat") auto

declare bitLength.simps [simp del]

definition pow2 :: "int \<Rightarrow> real" where
  "pow2 q = (if q \<ge> 0 then 2 ^ nat q else 1 / 2 ^ nat (- q))"

definition binaryExponent :: "real \<Rightarrow> int" where
  "binaryExponent x =
     (if \<bar>x\<bar> \<ge> 1 then int (bitLength \<lfloor>\<bar>x\<bar>\<rfloor>) - 1
      else - int (bitLength (\<lceil>1 / \<bar>x\<bar>\<rceil> - 1)))"

text \<open>The nearest integer, the even one of two that are equally near.\<close>

definition roundHalfEven :: "real \<Rightarrow> int" where
  "roundHalfEven y =
     (let f = \<lfloor>y\<rfloor>
      in if y - of_int f < 1 / 2 then f
         else if y - of_int f > 1 / 2 then f + 1
         else if even f then f else f + 1)"

text \<open>
  \<open>roundDouble x\<close> is the result of rounding the real number \<open>x\<close> to binary64 in the default
  mode (to nearest, ties to the even significand) with the exponent unbounded above: a
  significand of 53 bits, the spacing never below \<open>2 ^ -1074\<close>. \<open>maxDouble\<close> is the largest
  finite double; a rounded result beyond it is an overflow.
\<close>

definition roundDouble :: "real \<Rightarrow> real" where
  "roundDouble x =
     (if x = 0 then 0
      else (let q = max (binaryExponent x - 52) (- 1074)
            in of_int (roundHalfEven (x / pow2 q)) * pow2 q))"

definition maxDouble :: real where
  "maxDouble = (2 ^ 53 - 1) * 2 ^ 971"

text \<open>
  The operators \<open>+\<close>, \<open>-\<close>, \<open>*\<close> and \<open>/\<close> of JavaScript on numbers. Where the rounded result is
  beyond \<open>maxDouble\<close> JavaScript yields an infinity; the model has none, and the theorems
  that use these operators bound the values they are applied to.
\<close>

definition fadd :: "real \<Rightarrow> real \<Rightarrow> real" where
  "fadd a b = roundDouble (a + b)"

definition fsub :: "real \<Rightarrow> real \<Rightarrow> real" where
  "fsub a b = roundDouble (a - b)"

definition fmul :: "real \<Rightarrow> real \<Rightarrow> real" where
  "fmul a b = roundDouble (a * b)"

definition fdiv :: "real \<Rightarrow> real \<Rightarrow> real" where
  "fdiv a b = roundDouble (a / b)"

text \<open>
  The aggregate \<open>SUM\<close> of PostgreSQL over \<open>DOUBLE PRECISION\<close> values: the first value is the
  initial state and every further value is added to it with one rounding, in the order in
  which the scan delivers the rows, here the order of the table. An addition that
  overflows raises \<open>value out of range: overflow\<close>, which is the result \<open>None\<close>. Over no row
  the aggregate is \<open>NULL\<close>, which every caller turns into 0 (\<open>COALESCE(.., 0)\<close>, or
  \<open>parseFloat(..) || 0\<close>): that is the result \<open>Some 0\<close>.
\<close>

fun pgAccumulate :: "real \<Rightarrow> real list \<Rightarrow> real option" where
  "pgAccumulate acc [] = Some acc"
| "pgAccumulate acc (v # vs) =
     (let r = roundDouble (acc + v)
      in if \<bar>r\<bar> > maxDouble then None else pgAccumulate r vs)"

definition pgSum :: "real list \<Rightarrow> real option" where
  "pgSum vs = (case vs of [] \<Rightarrow> Some 0 | v # rest \<Rightarrow> pgAccumulate v rest)"

section \<open>Balance oracle\<close>

text \<open>\<open>CASE WHEN type = 'IN' THEN amount ELSE -amount END\<close>\<close>

definition signedAmount :: "Transaction \<Rightarrow> real" where
  "signedAmount x = (if txn_type x = IN then amount x else - amount x)"

text \<open>
  The query of \<open>getBalanceAtTimestamp\<close>:
  \<open>SELECT COALESCE(SUM(CASE ...), 0) FROM "Transaction" WHERE timestamp <= t\<close>;
  \<open>None\<close> when the query raises.
\<close>

definition sumUpTo :: "Transaction list \<Rightarrow> instant \<Rightarrow> real option" where
  "sumUpTo txns t = pgSum (map signedAmount (filter (\<lambda>x. timestamp x \<le> t) txns))"

text \<open>
  \<open>getBalanceAtTimestamp\<close>: an entry cached under the instant's key is returned as it is;
  on a miss the sum is computed from the table and stored under the key. \<open>None\<close> is the
  exception of the query, which the function does not catch.
\<close>

definition getBalanceAtTimestamp :: "State \<Rightarrow> instant \<Rightarrow> real option \<times> State" where
  "getBalanceAtTimestamp s t =
     (case map_of (balanceCache s) t of
        Some cachedBalance \<Rightarrow> (Some cachedBalance, s)
      | None \<Rightarrow>
          (case sumUpTo (transactions s) t of
             None \<Rightarrow> (None, s)
           | Some computed \<Rightarrow>
               (Some computed, s\<lparr>balanceCache := AList.update t computed (balanceCache s)\<rparr>)))"

text \<open>
  \<open>getBalanceExcludingTransaction\<close>: the same sum with \<open>AND id != excludeId\<close>, never cached.
\<close>

definition getBalanceExcludingTransaction :: "State \<Rightarrow> instant \<Rightarrow> int \<Rightarrow> real option" where
  "getBalanceExcludingTransaction s t excludeId =
     pgSum (map signedAmount
       (filter (\<lambda>x. timestamp x \<le> t \<and> txn_id x \<noteq> excludeId) (transactions s)))"

section \<open>Cache invalidation and cached aggregates\<close>

text \<open>
  \<open>invalidateBalanceCache\<close>: lists the keys \<open>balance:*\<close>, keeps those whose instant is not
  before \<open>fromDate\<close>, deletes them when there is one, and deletes the key
  \<open>invalid_transaction_count\<close>. It does not name the key \<open>transaction_stats\<close>.
\<close>

definition invalidateBalanceCache :: "State \<Rightarrow> instant \<Rightarrow> State" where
  "invalidateBalanceCache s fromDate =
     (let keys = map fst (balanceCache s);
          keysToDelete = filter (\<lambda>keyDate. keyDate \<ge> fromDate) keys
      in s\<lparr>balanceCache :=
             (if length keysToDelete > 0 then fold AList.delete keysToDelete (balanceCache s)
              else balanceCache s),
           invalidCountCache := None\<rparr>)"

text \<open>\<open>getInvalidTransactionCount\<close>: the cached count, or the number of marker rows, then cached.\<close>

definition getInvalidTransactionCount :: "State \<Rightarrow> nat \<times> State" where
  "getInvalidTransactionCount s =
     (case invalidCountCache s of
        Some cachedCount \<Rightarrow> (cachedCount, s)
      | None \<Rightarrow>
          (let n = length (invalidTransactions s)
           in (n, s\<lparr>invalidCountCache := Some n\<rparr>)))"

text \<open>
  The aggregates of \<open>getTransactionStats\<close> over the rows of one type; an aggregate over no
  row is \<open>null\<close> in Prisma and becomes 0 by \<open>|| 0\<close>. The sums and averages of the statistics
  are written as exact sums: the theorems below use only the count of rows and whether the
  statistics are cached.
\<close>

definition maxOf :: "real list \<Rightarrow> real" where
  "maxOf xs = (case xs of [] \<Rightarrow> 0 | y # ys \<Rightarrow> fold max ys y)"

definition minOf :: "real list \<Rightarrow> real" where
  "minOf xs = (case xs of [] \<Rightarrow> 0 | y # ys \<Rightarrow> fold min ys y)"

definition aggregateType :: "Transaction list \<Rightarrow> TransactionType \<Rightarrow> TypeStats" where
  "aggregateType txns ty =
     (let amounts = map amount (filter (\<lambda>x. txn_type x = ty) txns)
      in \<lparr>count_of = length amounts,
          totalAmount = sum_list amounts,
          averageAmount = (if amounts = [] then 0 else sum_list amounts / real (length amounts)),
          maxAmount = maxOf amounts,
          minAmount = minOf amounts\<rparr>)"

definition getTransactionStats :: "State \<Rightarrow> Stats \<times> State" where
  "getTransactionStats s =
     (case statsCache s of
        Some cachedStats \<Rightarrow> (cachedStats, s)
      | None \<Rightarrow>
          (let inStats = aggregateType (transactions s) IN;
               outStats = aggregateType (transactions s) OUT;
               stats = \<lparr>totalTransactions = length (transactions s),
                        inTransactions = inStats,
                        outTransactions = outStats,
                        currentBalance = totalAmount inStats - totalAmount outStats\<rparr>
           in (stats, s\<lparr>statsCache := Some stats\<rparr>)))"

section \<open>Request bodies\<close>

text \<open>
  A field of a JSON request body: absent, \<open>null\<close>, a boolean, a number or a string
  (arrays and objects as field values are not modelled). \<open>truthy\<close> is JavaScript's
  \<open>ToBoolean\<close>, which \<open>!x\<close>, \<open>x || y\<close> and \<open>x ? a : b\<close> apply.
\<close>

datatype JsValue = JUndefined | JNull | JBool bool | JNumber real | JString string

fun truthy :: "JsValue \<Rightarrow> bool" where
  "truthy JUndefined = False"
| "truthy JNull = False"
| "truthy (JBool b) = b"
| "truthy (JNumber n) = (n \<noteq> 0)"
| "truthy (JString s) = (s \<noteq> [])"

record TransactionBody =
  body_timestamp :: JsValue
  body_type :: JsValue
  body_amount :: JsValue

text \<open>
  What the environment does is taken as a parameter. \<open>dateParse\<close> is \<open>Date.parse\<close> and
  \<open>floatParse\<close> is \<open>parseFloat\<close> on a string, \<open>None\<close> standing for \<open>NaN\<close> (a string that parses
  to an infinity is outside the model). \<open>timestampStorable\<close> tells which instants the Prisma
  client and the \<open>TIMESTAMPTZ\<close> column accept: the range of the column starts at 4713 BC and
  a \<open>Date\<close> reaches further back, so a write can fail on a date that has passed validation.
  \<open>numberToString\<close> is \<open>Number.prototype.toString\<close>, which \<open>toFixed\<close> falls back to from
  \<open>1e21\<close> on.
\<close>

record Runtime =
  dateParse :: "string \<Rightarrow> instant option"
  floatParse :: "string \<Rightarrow> real option"
  timestampStorable :: "instant \<Rightarrow> bool"
  numberToString :: "real \<Rightarrow> string"


text \<open>\<open>new Date(v)\<close>: the time value, \<open>None\<close> for an invalid date.\<close>

fun newDate :: "Runtime \<Rightarrow> JsValue \<Rightarrow> instant option" where
  "newDate rt (JString s) = dateParse rt s"
| "newDate rt (JNumber n) =
     (if \<bar>n\<bar> \<le> 8640000000000000 then Some (if n \<ge> 0 then \<lfloor>n\<rfloor> else \<lceil>n\<rceil>) else None)"
| "newDate rt (JBool b) = Some (if b then 1 else 0)"
| "newDate rt JNull = Some 0"
| "newDate rt JUndefined = None"

text \<open>\<open>parseFloat(v)\<close>: the number, \<open>None\<close> for \<open>NaN\<close>.\<close>

fun parseFloat :: "Runtime \<Rightarrow> JsValue \<Rightarrow> real option" where
  "parseFloat rt (JString s) = floatParse rt s"
| "parseFloat rt (JNumber n) = Some n"
| "parseFloat rt v = None"

text \<open>\<open>["IN", "OUT"].includes(type)\<close>, and the value of the enum the string names.\<close>

definition typeOf :: "JsValue \<Rightarrow> TransactionType option" where
  "typeOf v = (if v = JString ''IN'' then Some IN
               else if v = JString ''OUT'' then Some OUT else None)"

fun typeName :: "TransactionType \<Rightarrow> JsValue" where
  "typeName IN = JString ''IN''"
| "typeName OUT = JString ''OUT''"

section \<open>Responses\<close>

text \<open>
  The error responses of the controller, one constructor for each \<open>res.status(..).json\<close>
  with an \<open>error\<close> field; the two balance errors carry the numbers their message prints
  after \<open>Available:\<close> and \<open>Requested:\<close>.
\<close>

datatype ErrorResponse =
    MissingRequiredFields
  | InvalidTransactionType
  | InvalidTimestampFormat
  | CannotUseFutureTimestamp
  | AmountMustBePositive
  | InsufficientBalance real real
  | InsufficientBalanceForUpdate real real
  | InvalidTransactionID
  | TransactionNotFound
  | FailedToCreate
  | FailedToUpdate
  | FailedToDelete
  | TransactionsArrayRequired
  | InvalidTransactionData
  | InvalidTimestamp
  | InvalidAmount
  | FailedToCreateBulk

fun statusCode :: "ErrorResponse \<Rightarrow> nat" where
  "statusCode TransactionNotFound = 404"
| "statusCode FailedToCreate = 500"
| "statusCode FailedToUpdate = 500"
| "statusCode FailedToDelete = 500"
| "statusCode FailedToCreateBulk = 500"
| "statusCode e = 400"

text \<open>The responses that report a fault of a field of the request.\<close>

fun isValidationError :: "ErrorResponse \<Rightarrow> bool" where
  "isValidationError MissingRequiredFields = True"
| "isValidationError InvalidTransactionType = True"
| "isValidationError InvalidTimestampFormat = True"
| "isValidationError CannotUseFutureTimestamp = True"
| "isValidationError AmountMustBePositive = True"
| "isValidationError TransactionsArrayRequired = True"
| "isValidationError InvalidTransactionData = True"
| "isValidationError InvalidTimestamp = True"
| "isValidationError InvalidAmount = True"
| "isValidationError e = False"


section \<open>Mutation guard\<close>

text \<open>
  The validation of \<open>createTransaction\<close>, in the order of the source; \<open>now\<close> is the clock
  \<open>isFuture\<close> reads. It yields the parsed date, type and amount.
\<close>

definition validateCreate ::
  "Runtime \<Rightarrow> instant \<Rightarrow> TransactionBody \<Rightarrow> ErrorResponse + (instant \<times> TransactionType \<times> real)"
where
  "validateCreate rt now body =
     (if \<not> truthy (body_timestamp body) \<or> \<not> truthy (body_type body) \<or> \<not> truthy (body_amount body)
      then Inl MissingRequiredFields
      else case typeOf (body_type body) of
        None \<Rightarrow> Inl InvalidTransactionType
      | Some ty \<Rightarrow>
          (case newDate rt (body_timestamp body) of
             None \<Rightarrow> Inl InvalidTimestampFormat
           | Some date \<Rightarrow>
               if date > now then Inl CannotUseFutureTimestamp
               else case parseFloat rt (body_amount body) of
                 None \<Rightarrow> Inl AmountMustBePositive
               | Some numericAmount \<Rightarrow>
                   if numericAmount \<le> 0 then Inl AmountMustBePositive
                   else Inr (date, ty, numericAmount)))"

text \<open>
  \<open>tx.transaction.create\<close> followed by \<open>invalidateBalanceCache(date)\<close>: the row gets the
  next identifier of the sequence. When the date cannot be stored the write raises, nothing
  is written or invalidated, and the \<open>catch\<close> block answers 500.
\<close>

definition insertTransaction ::
  "Runtime \<Rightarrow> State \<Rightarrow> instant \<Rightarrow> TransactionType \<Rightarrow> real \<Rightarrow>
     (ErrorResponse + Transaction) \<times> State"
where
  "insertTransaction rt s date ty numericAmount =
     (if \<not> timestampStorable rt date then (Inl FailedToCreate, s)
      else (let newTxn = \<lparr>txn_id = nextId s, timestamp = date, txn_type = ty,
                           amount = numericAmount\<rparr>;
                s' = s\<lparr>transactions := transactions s @ [newTxn], nextId := nextId s + 1\<rparr>
            in (Inr newTxn, invalidateBalanceCache s' date)))"

text \<open>
  \<open>createTransaction\<close>: the response (the created row with status 201, or an error) and
  the state after it. An exception of the balance query is answered by the \<open>catch\<close> block
  with 500. The recalculation it queues with \<open>setImmediate\<close> runs after the response and is
  the separate function \<open>recalculateFromTimestamp\<close> below.
\<close>

definition createTransaction ::
  "Runtime \<Rightarrow> instant \<Rightarrow> State \<Rightarrow> TransactionBody \<Rightarrow> (ErrorResponse + Transaction) \<times> State"
where
  "createTransaction rt now s body =
     (case validateCreate rt now body of
        Inl e \<Rightarrow> (Inl e, s)
      | Inr (date, ty, numericAmount) \<Rightarrow>
          if ty = OUT then
            (case getBalanceAtTimestamp s date of
               (None, s1) \<Rightarrow> (Inl FailedToCreate, s1)
             | (Some balanceAtTime, s1) \<Rightarrow>
                 if numericAmount > balanceAtTime
                 then (Inl (InsufficientBalance balanceAtTime numericAmount), s1)
                 else insertTransaction rt s1 date ty numericAmount)
          else insertTransaction rt s date ty numericAmount)"

text \<open>
  \<open>tx.transaction.update\<close> followed by \<open>invalidateBalanceCache(earliestDate)\<close>. The column
  \<open>type\<close> is the enum \<open>TransactionType\<close> of the schema: a value that is neither \<open>IN\<close> nor \<open>OUT\<close>
  is refused by the client, nothing is written, and the \<open>catch\<close> block answers 500; so does
  a date that cannot be stored.
\<close>

definition writeUpdate ::
  "Runtime \<Rightarrow> State \<Rightarrow> Transaction \<Rightarrow> instant \<Rightarrow> JsValue \<Rightarrow> real \<Rightarrow>
     (ErrorResponse + Transaction) \<times> State"
where
  "writeUpdate rt s existing date newType newAmount =
     (case typeOf newType of
        None \<Rightarrow> (Inl FailedToUpdate, s)
      | Some ty \<Rightarrow>
          if \<not> timestampStorable rt date then (Inl FailedToUpdate, s)
          else
          (let updated = existing\<lparr>timestamp := date, txn_type := ty, amount := newAmount\<rparr>;
               s' = s\<lparr>transactions :=
                      map (\<lambda>x. if txn_id x = txn_id existing then updated else x) (transactions s)\<rparr>;
               earliestDate = min (timestamp existing) date
           in (Inr updated, invalidateBalanceCache s' earliestDate)))"

text \<open>
  \<open>updateTransaction\<close>; \<open>txnId\<close> is \<open>parseInt(id)\<close> of the route parameter, \<open>None\<close> for \<open>NaN\<close>.
  Each of \<open>date\<close>, \<open>newType\<close> and \<open>newAmount\<close> is taken from the body when the field is truthy
  and from the stored row otherwise. An exception of the balance query is answered with 500.
\<close>

definition updateTransaction ::
  "Runtime \<Rightarrow> instant \<Rightarrow> State \<Rightarrow> int option \<Rightarrow> TransactionBody \<Rightarrow>
     (ErrorResponse + Transaction) \<times> State"
where
  "updateTransaction rt now s txnId body =
     (case txnId of
        None \<Rightarrow> (Inl InvalidTransactionID, s)
      | Some i \<Rightarrow>
          (case find (\<lambda>x. txn_id x = i) (transactions s) of
             None \<Rightarrow> (Inl TransactionNotFound, s)
           | Some existing \<Rightarrow>
               (let date = (if truthy (body_timestamp body) then newDate rt (body_timestamp body)
                            else Some (timestamp existing));
                    newType = (if truthy (body_type body) then body_type body
                               else typeName (txn_type existing));
                    newAmount = (if truthy (body_amount body) then parseFloat rt (body_amount body)
                                 else Some (amount existing))
                in case date of
                     None \<Rightarrow> (Inl InvalidTimestampFormat, s)
                   | Some d \<Rightarrow>
                       if d > now then (Inl CannotUseFutureTimestamp, s)
                       else (case newAmount of
                               None \<Rightarrow> (Inl AmountMustBePositive, s)
                             | Some a \<Rightarrow>
                                 if truthy (body_amount body) \<and> a \<le> 0
                                 then (Inl AmountMustBePositive, s)
                                 else if newType = JString ''OUT'' then
                                   (case getBalanceExcludingTransaction s d i of
                                      None \<Rightarrow> (Inl FailedToUpdate, s)
                                    | Some balanceExcludingThis \<Rightarrow>
                                        if a > balanceExcludingThis
                                        then (Inl (InsufficientBalanceForUpdate
                                                     balanceExcludingThis a), s)
                                        else writeUpdate rt s existing d newType a)
                                 else writeUpdate rt s existing d newType a))))"

text \<open>
  \<open>deleteTransaction\<close>: the row is removed, with it its marker (\<open>ON DELETE CASCADE\<close>), and the
  cache is invalidated from the row's timestamp.
\<close>

definition deleteTransaction :: "State \<Rightarrow> int option \<Rightarrow> (ErrorResponse + unit) \<times> State" where
  "deleteTransaction s txnId =
     (case txnId of
        None \<Rightarrow> (Inl InvalidTransactionID, s)
      | Some i \<Rightarrow>
          (case find (\<lambda>x. txn_id x = i) (transactions s) of
             None \<Rightarrow> (Inl TransactionNotFound, s)
           | Some txn \<Rightarrow>
               (let s' = s\<lparr>transactions := filter (\<lambda>x. txn_id x \<noteq> i) (transactions s),
                           invalidTransactions :=
                             filter (\<lambda>m. transactionId m \<noteq> i) (invalidTransactions s)\<rparr>
                in (Inr (), invalidateBalanceCache s' (timestamp txn)))))"

section \<open>Bulk loader\<close>

text \<open>The checks \<open>createBulkTransactions\<close> makes on one record, with its own messages.\<close>

definition validateBulkRecord ::
  "Runtime \<Rightarrow> instant \<Rightarrow> TransactionBody \<Rightarrow> ErrorResponse + (instant \<times> TransactionType \<times> real)"
where
  "validateBulkRecord rt now txn =
     (if \<not> truthy (body_timestamp txn) \<or> \<not> truthy (body_type txn) \<or> \<not> truthy (body_amount txn)
      then Inl InvalidTransactionData
      else case typeOf (body_type txn) of
        None \<Rightarrow> Inl InvalidTransactionType
      | Some ty \<Rightarrow>
          (case newDate rt (body_timestamp txn) of
             None \<Rightarrow> Inl InvalidTimestamp
           | Some date \<Rightarrow>
               if date > now then Inl InvalidTimestamp
               else case parseFloat rt (body_amount txn) of
                 None \<Rightarrow> Inl InvalidAmount
               | Some numericAmount \<Rightarrow>
                   if numericAmount \<le> 0 then Inl InvalidAmount
                   else Inr (date, ty, numericAmount)))"

text \<open>The validation loop: it returns at the first record that fails.\<close>

fun validateAll ::
  "Runtime \<Rightarrow> instant \<Rightarrow> TransactionBody list \<Rightarrow>
     ErrorResponse + (instant \<times> TransactionType \<times> real) list"
where
  "validateAll rt now [] = Inr []"
| "validateAll rt now (txn # rest) =
     (case validateBulkRecord rt now txn of
        Inl e \<Rightarrow> Inl e
      | Inr v \<Rightarrow>
          (case validateAll rt now rest of
             Inl e \<Rightarrow> Inl e
           | Inr vs \<Rightarrow> Inr (v # vs)))"

text \<open>
  \<open>prisma.transaction.createMany({data: batch, skipDuplicates: true})\<close>. Each record gets
  the next identifier; \<open>skipDuplicates\<close> leaves out a record that collides on a unique key,
  and the only unique key of the table \<open>Transaction\<close> in the schema is \<open>id\<close>. The result is
  the state and the number of rows written.
\<close>

fun createMany ::
  "State \<Rightarrow> (instant \<times> TransactionType \<times> real) list \<Rightarrow> nat \<Rightarrow> State \<times> nat"
where
  "createMany s [] n = (s, n)"
| "createMany s ((date, ty, numericAmount) # batch) n =
     (let row = \<lparr>txn_id = nextId s, timestamp = date, txn_type = ty, amount = numericAmount\<rparr>
      in if nextId s \<in> set (map txn_id (transactions s))
         then createMany (s\<lparr>nextId := nextId s + 1\<rparr>) batch n
         else createMany (s\<lparr>transactions := transactions s @ [row], nextId := nextId s + 1\<rparr>)
                batch (n + 1))"

text \<open>
  The loop over the batches of 1000 records, \<open>i\<close> the index the next batch starts at. A
  batch with a date that cannot be stored makes \<open>createMany\<close> raise: the batches before it
  stay written and the result is \<open>None\<close> in place of the number of rows created.
\<close>

function insertBatches ::
  "Runtime \<Rightarrow> State \<Rightarrow> (instant \<times> TransactionType \<times> real) list \<Rightarrow> nat \<Rightarrow> nat \<Rightarrow>
     State \<times> nat option"
where
  "insertBatches rt s validatedTransactions i created =
     (if i < length validatedTransactions then
        (let batch = take 1000 (drop i validatedTransactions)
         in if list_all (\<lambda>v. timestampStorable rt (fst v)) batch then
              (let (s', n) = createMany s batch 0
               in insertBatches rt s' validatedTransactions (i + 1000) (created + n))
            else (s, None))
      else (s, Some created))"
  by pat_completeness auto
termination
  by (relation "measure (\<lambda>(rt, s, vs, i, created). length vs - i)") auto

declare insertBatches.simps [simp del]

text \<open>
  \<open>createBulkTransactions\<close> on the array of the body (a body without an array is answered
  like the empty array): the number of rows created, or an error. The records are sorted by
  date (\<open>Array.prototype.sort\<close> is stable), written in batches, and the whole Redis database is
  flushed; when a batch raises, the \<open>catch\<close> block answers 500 and nothing is flushed.
\<close>

definition createBulkTransactions ::
  "Runtime \<Rightarrow> instant \<Rightarrow> State \<Rightarrow> TransactionBody list \<Rightarrow> (ErrorResponse + nat) \<times> State"
where
  "createBulkTransactions rt now s txns =
     (if length txns = 0 then (Inl TransactionsArrayRequired, s)
      else case validateAll rt now txns of
        Inl e \<Rightarrow> (Inl e, s)
      | Inr validatedTransactions \<Rightarrow>
          (let sorted_txns = sort_key fst validatedTransactions
           in case insertBatches rt s sorted_txns 0 0 of
                (s', None) \<Rightarrow> (Inl FailedToCreateBulk, s')
              | (s', Some created) \<Rightarrow>
                  (Inr created,
                   s'\<lparr>balanceCache := [], invalidCountCache := None, statsCache := None\<rparr>)))"


section \<open>Invalid-transaction detector\<close>

text \<open>
  \<open>x.toFixed(2)\<close>: below \<open>1e21\<close> in magnitude the sign, then the integer \<open>n\<close> nearest to
  \<open>100 * |x|\<close> (the larger one of two) printed with two decimals; from \<open>1e21\<close> on the string
  \<open>Number.prototype.toString\<close> gives.
\<close>

definition toFixedCents :: "real \<Rightarrow> nat" where
  "toFixedCents x = nat \<lfloor>\<bar>x\<bar> * 100 + 1 / 2\<rfloor>"

definition digitChar :: "nat \<Rightarrow> char" where
  "digitChar d = ''0123456789'' ! d"

function showNat :: "nat \<Rightarrow> string" where
  "showNat n = (if n < 10 then [digitChar n] else showNat (n div 10) @ [digitChar (n mod 10)])"
  by pat_completeness auto
termination
  by (relation "measure id") auto

declare showNat.simps [simp del]

definition toFixed2 :: "Runtime \<Rightarrow> real \<Rightarrow> string" where
  "toFixed2 rt x =
     (if \<bar>x\<bar> \<ge> 10 ^ 21 then numberToString rt x
      else (let n = toFixedCents x
            in (if x < 0 then ''-'' else []) @ showNat (n div 100) @ ''.'' @
               [digitChar (n mod 100 div 10), digitChar (n mod 10)]))"

text \<open>
  \<open>prisma.transaction.findMany({take, skip: 1, cursor: {id}, orderBy: {timestamp: "asc"}})\<close>
  on the table in the order of the query: the rows after the row of the cursor, at most
  \<open>take\<close> of them; all from the start when the cursor is \<open>null\<close> or 0 (\<open>cursor && ...\<close>).
  The order of the query is the table sorted by timestamp, rows of one timestamp in the
  order of the table.
\<close>

definition orderByTimestamp :: "Transaction list \<Rightarrow> Transaction list" where
  "orderByTimestamp txns = sort_key timestamp txns"

definition findMany :: "nat \<Rightarrow> int option \<Rightarrow> Transaction list \<Rightarrow> Transaction list" where
  "findMany batchSize cursor ordered =
     (case cursor of
        None \<Rightarrow> take batchSize ordered
      | Some c \<Rightarrow>
          if c = 0 then take batchSize ordered
          else take batchSize (drop 1 (dropWhile (\<lambda>x. txn_id x \<noteq> c) ordered)))"

text \<open>
  The prospective balance of one transaction on a running balance, in the arithmetic of
  JavaScript numbers.
\<close>

definition newBalanceOf :: "real \<Rightarrow> Transaction \<Rightarrow> real" where
  "newBalanceOf runningBalance txn =
     (if txn_type txn = IN then fadd runningBalance (amount txn)
      else fsub runningBalance (amount txn))"

definition markerOf :: "Runtime \<Rightarrow> Transaction \<Rightarrow> real \<Rightarrow> InvalidTransaction" where
  "markerOf rt txn newBalance =
     \<lparr>transactionId = txn_id txn,
      reason = ''Would result in negative balance: '' @ toFixed2 rt newBalance\<rparr>"

text \<open>
  The \<open>for\<close> loop over one page: the running balance and the list \<open>invalidTxns\<close> after it.
\<close>

fun scanPage ::
  "Runtime \<Rightarrow> Transaction list \<Rightarrow> real \<Rightarrow> InvalidTransaction list \<Rightarrow>
     real \<times> InvalidTransaction list"
where
  "scanPage rt [] runningBalance invalidTxns = (runningBalance, invalidTxns)"
| "scanPage rt (txn # rest) runningBalance invalidTxns =
     (let newBalance = newBalanceOf runningBalance txn
      in scanPage rt rest (max 0 newBalance)
           (if newBalance < 0 then invalidTxns @ [markerOf rt txn newBalance] else invalidTxns))"

text \<open>
  The \<open>while (true)\<close> loop: \<open>table\<close> is the table \<open>InvalidTransaction\<close>, to which
  \<open>createMany\<close> appends the first 1000 pending markers (\<open>splice(0, 1000)\<close>) whenever at
  least 1000 are pending at the end of a page. The loop ends at the first empty page;
  \<open>None\<close> is a loop that never does.
\<close>

partial_function (option) scanLoop ::
  "Runtime \<Rightarrow> Transaction list \<Rightarrow> int option \<Rightarrow> real \<Rightarrow> InvalidTransaction list \<Rightarrow>
     InvalidTransaction list \<Rightarrow> (InvalidTransaction list \<times> InvalidTransaction list) option"
where
  "scanLoop rt ordered cursor runningBalance invalidTxns table =
     (let page = findMany 10000 cursor ordered
      in if length page = 0 then Some (invalidTxns, table)
         else (case scanPage rt page runningBalance invalidTxns of
                 (runningBalance', invalidTxns') \<Rightarrow>
                   if length invalidTxns' \<ge> 1000
                   then scanLoop rt ordered (Some (txn_id (last page))) runningBalance'
                          (drop 1000 invalidTxns') (table @ take 1000 invalidTxns')
                   else scanLoop rt ordered (Some (txn_id (last page))) runningBalance'
                          invalidTxns' table))"

text \<open>
  \<open>markInvalidTransactions\<close>: the table of markers is emptied, the log is scanned, and the
  markers still pending are written.
\<close>

definition markInvalidTransactions :: "Runtime \<Rightarrow> State \<Rightarrow> State option" where
  "markInvalidTransactions rt s =
     (case scanLoop rt (orderByTimestamp (transactions s)) None 0 [] [] of
        None \<Rightarrow> None
      | Some (invalidTxns, table) \<Rightarrow>
          Some (s\<lparr>invalidTransactions :=
                    (if length invalidTxns > 0 then table @ invalidTxns else table)\<rparr>))"

section \<open>Daily summary recalculator\<close>

text \<open>
  Local time is a zone at a fixed offset of \<open>tz\<close> milliseconds from UTC (local time is UTC
  plus \<open>tz\<close>), so every calendar day has \<open>dayMs\<close> milliseconds. \<open>startOfDay\<close> is
  \<open>setHours(0, 0, 0, 0)\<close> and \<open>endOfDay\<close> is \<open>setHours(23, 59, 59, 999)\<close>;
  \<open>setDate(getDate() + 1)\<close> adds \<open>dayMs\<close>.
\<close>

definition dayMs :: int where
  "dayMs = 86400000"

definition startOfDay :: "int \<Rightarrow> instant \<Rightarrow> instant" where
  "startOfDay tz t = t - (t + tz) mod dayMs"

definition endOfDay :: "int \<Rightarrow> instant \<Rightarrow> instant" where
  "endOfDay tz t = startOfDay tz t + dayMs - 1"

text \<open>The loop that collects \<open>affectedDates\<close>.\<close>

function affectedDates :: "instant \<Rightarrow> instant \<Rightarrow> instant list" where
  "affectedDates d endDate = (if d \<le> endDate then d # affectedDates (d + dayMs) endDate else [])"
  by pat_completeness auto
termination
  by (relation "measure (\<lambda>(d, endDate). nat (endDate + 1 - d))") (auto simp: dayMs_def)

declare affectedDates.simps [simp del]

text \<open>
  \<open>parseFloat(x.toFixed(2))\<close>: the double nearest to the decimal \<open>toFixed\<close> prints; from
  \<open>1e21\<close> on the string is the shortest one that reads back as \<open>x\<close>.
\<close>

definition toFixedValue :: "real \<Rightarrow> real" where
  "toFixedValue x =
     (if \<bar>x\<bar> \<ge> 10 ^ 21 then x
      else roundDouble ((if x < 0 then - 1 else 1) * real (toFixedCents x) / 100))"

text \<open>
  The three queries of one day and the row they give; \<open>None\<close> when one of them raises.
\<close>

definition sumBefore :: "Transaction list \<Rightarrow> instant \<Rightarrow> real option" where
  "sumBefore txns t = pgSum (map signedAmount (filter (\<lambda>x. timestamp x < t) txns))"

definition summaryOfDay :: "Transaction list \<Rightarrow> instant \<Rightarrow> DailySummary option" where
  "summaryOfDay txns date =
     (let nextDate = date + dayMs;
          dayTxns = filter (\<lambda>x. timestamp x \<ge> date \<and> timestamp x < nextDate) txns
      in case sumBefore txns nextDate of
           None \<Rightarrow> None
         | Some dayBalance \<Rightarrow>
         (case pgSum (map (\<lambda>x. if txn_type x = IN then amount x else 0) dayTxns) of
            None \<Rightarrow> None
          | Some inSum \<Rightarrow>
          (case pgSum (map (\<lambda>x. if txn_type x = OUT then amount x else 0) dayTxns) of
             None \<Rightarrow> None
           | Some outSum \<Rightarrow>
           (case sumBefore txns date of
              None \<Rightarrow> None
            | Some previousBalance \<Rightarrow>
                (let change =
                       (if previousBalance = 0 then 0
                        else fmul (fdiv (fsub dayBalance previousBalance) previousBalance) 100)
                 in Some \<lparr>balance = dayBalance,
                          percentChange = toFixedValue change,
                          transactionCount = length dayTxns,
                          inAmount = inSum,
                          outAmount = outSum\<rparr>)))))"

text \<open>
  \<open>prisma.dailySummary.upsert({where: {date}, ..})\<close> for each affected date, in the order of
  the list. The column is a \<open>DATE\<close>: of the \<open>Date\<close> it is given the client keeps the calendar
  date in UTC, \<open>utcDate\<close>. The result says whether the loop completed; when a query raises,
  the rows upserted before it stay.
\<close>

definition utcDate :: "instant \<Rightarrow> int" where
  "utcDate d = d div dayMs"

datatype Outcome = Completed | Raised

fun upsertSummaries :: "State \<Rightarrow> instant list \<Rightarrow> Outcome \<times> State" where
  "upsertSummaries s [] = (Completed, s)"
| "upsertSummaries s (date # dates) =
     (case summaryOfDay (transactions s) date of
        None \<Rightarrow> (Raised, s)
      | Some row \<Rightarrow>
          upsertSummaries
            (s\<lparr>dailySummaries := AList.update (utcDate date) row (dailySummaries s)\<rparr>) dates)"

text \<open>
  \<open>recalculateFromTimestamp\<close>, at clock \<open>now\<close>: the rows of the days from the day of
  \<open>fromTimestamp\<close> to today, then the detector. The result is \<open>None\<close> when the loop of the
  detector never ends.
\<close>

definition recalculateFromTimestamp ::
  "Runtime \<Rightarrow> int \<Rightarrow> instant \<Rightarrow> State \<Rightarrow> instant \<Rightarrow> (Outcome \<times> State) option"
where
  "recalculateFromTimestamp rt tz now s fromTimestamp =
     (let startDate = startOfDay tz fromTimestamp;
          endDate = endOfDay tz now
      in case upsertSummaries s (affectedDates startDate endDate) of
           (Raised, s') \<Rightarrow> Some (Raised, s')
         | (Completed, s') \<Rightarrow>
             (case markInvalidTransactions rt s' of
                None \<Rightarrow> None
              | Some s'' \<Rightarrow> Some (Completed, s'')))"

section \<open>Batch balance query\<close>

text \<open>
  The query of \<open>getBalancesAtTimestamps\<close> groups the join of the subquery \<open>buckets\<close> with
  \<open>"Transaction"\<close> by \<open>timestamp_bucket\<close> and selects a window \<open>SUM\<close> whose argument reads the
  columns \<open>type\<close> and \<open>amount\<close>, which are neither grouped nor inside an aggregate.
  PostgreSQL refuses such a query when it analyses it (\<open>column "t.type" must appear in the
  GROUP BY clause or be used in an aggregate function\<close>), before it reads a row or a
  parameter: \<open>$queryRaw\<close> raises whatever the table and the instants are. \<open>None\<close> is that
  exception.
\<close>

definition batchQuery :: "Transaction list \<Rightarrow> instant list \<Rightarrow> (instant \<times> real) list option" where
  "batchQuery txns uniqueTimestamps = None"

text \<open>
  \<open>getBalancesAtTimestamps\<close>: the distinct instants, the query, and the map filled from its
  rows. The function catches nothing, so the exception of the query is its own.
\<close>

definition getBalancesAtTimestamps :: "State \<Rightarrow> instant list \<Rightarrow> (instant \<times> real) list option" where
  "getBalancesAtTimestamps s timestamps =
     (let uniqueTimestamps = remdups timestamps
      in case batchQuery (transactions s) uniqueTimestamps of
           None \<Rightarrow> None
         | Some results \<Rightarrow>
             Some (fold (\<lambda>(b, v) balanceMap. AList.update b v balanceMap) results []))"

section \<open>Initial state\<close>

text \<open>The empty database and the empty cache.\<close>

definition initialState :: State where
  "initialState =
     \<lparr>transactions = [], nextId = 1, invalidTransactions = [], dailySummaries = [],
      balanceCache = [], invalidCountCache = None, statsCache = None\<rparr>"

text \<open>
  The identifiers are well formed when they are distinct and below the next value of the
  sequence.
\<close>

definition idsWellFormed :: "State \<Rightarrow> bool" where
  "idsWellFormed s =
     (distinct (map txn_id (transactions s)) \<and> (\<forall>x \<in> set (transactions s). txn_id x < nextId s))"

section \<open>The balance function, the detector and the daily row as the specification words them\<close>

text \<open>
  The balance function of the specification: the sum, over the transactions of the ledger
  taken as a multiset, of the amount of each one dated no later than \<open>t\<close>, counted positive
  for \<open>IN\<close> and negative for \<open>OUT\<close>. It is a sum of real numbers, with no rounding.
\<close>

definition B :: "Transaction multiset \<Rightarrow> instant \<Rightarrow> real" where
  "B ledger t =
     (\<Sum>x \<in># filter_mset (\<lambda>x. timestamp x \<le> t) ledger.
        (case txn_type x of IN \<Rightarrow> amount x | OUT \<Rightarrow> - amount x))"


text \<open>
  The running balance of a chronological scan: it starts at \<open>r\<close> and after each transaction
  is the prospective balance clamped at 0. \<open>runningBefore xs i\<close> is the running balance,
  started at 0, when the scan reaches the transaction at position \<open>i\<close>, and \<open>prospective xs i\<close>
  the prospective balance of that transaction: running plus the amount for \<open>IN\<close>, running
  minus the amount for \<open>OUT\<close>.
\<close>

fun clampedRun :: "real \<Rightarrow> Transaction list \<Rightarrow> real" where
  "clampedRun r [] = r"
| "clampedRun r (x # xs) =
     clampedRun (max 0 (case txn_type x of IN \<Rightarrow> r + amount x | OUT \<Rightarrow> r - amount x)) xs"

definition runningBefore :: "Transaction list \<Rightarrow> nat \<Rightarrow> real" where
  "runningBefore xs i = clampedRun 0 (take i xs)"

definition prospective :: "Transaction list \<Rightarrow> nat \<Rightarrow> real" where
  "prospective xs i =
     (case txn_type (xs ! i) of
        IN \<Rightarrow> runningBefore xs i + amount (xs ! i)
      | OUT \<Rightarrow> runningBefore xs i - amount (xs ! i))"


text \<open>
  The running balance the loop of the code carries from \<open>r\<close> over \<open>xs\<close>, and the markers it
  emits on the way.
\<close>

fun runOf :: "real \<Rightarrow> Transaction list \<Rightarrow> real" where
  "runOf r [] = r"
| "runOf r (x # xs) = runOf (max 0 (newBalanceOf r x)) xs"

fun markersFrom :: "Runtime \<Rightarrow> real \<Rightarrow> Transaction list \<Rightarrow> InvalidTransaction list" where
  "markersFrom rt r [] = []"
| "markersFrom rt r (x # xs) =
     (if newBalanceOf r x < 0 then [markerOf rt x (newBalanceOf r x)] else []) @
     markersFrom rt (max 0 (newBalanceOf r x)) xs"

text \<open>
  Calendar days in the zone of offset \<open>tz\<close>: \<open>dayNumber tz t\<close> is the number of the day that
  contains the instant \<open>t\<close>, and \<open>dayStart tz j\<close> the instant at which day \<open>j\<close> starts.
\<close>

definition dayNumber :: "int \<Rightarrow> instant \<Rightarrow> int" where
  "dayNumber tz t = (t + tz) div dayMs"

definition dayStart :: "int \<Rightarrow> int \<Rightarrow> instant" where
  "dayStart tz j = j * dayMs - tz"

text \<open>
  The row of the day that starts at \<open>d\<close>: the balance is the balance function at the end of
  the day, the last millisecond before the next day starts; the count and the two amounts
  are taken over the transactions dated from the start of the day up to, not including,
  the start of the next. The change is 0 when the balance at the end of the previous day
  is 0. Otherwise it is the relative change in percent, computed in double precision, and
  then rounded to two decimals: the double nearest to \<open>n / 100\<close> for the integer \<open>n\<close> nearest
  to 100 times its magnitude (the larger one of two), with its sign; a change of magnitude
  \<open>1e21\<close> or more is left as it is.
\<close>

definition isPercentChange :: "real \<Rightarrow> real \<Rightarrow> real \<Rightarrow> bool" where
  "isPercentChange previousBalance endBalance p =
     (if previousBalance = 0 then p = 0
      else (let v = fmul (fdiv (fsub endBalance previousBalance) previousBalance) 100
            in if \<bar>v\<bar> \<ge> 10 ^ 21 then p = v
               else (\<exists>n :: int. 100 * \<bar>v\<bar> - 1 / 2 < of_int n \<and> of_int n \<le> 100 * \<bar>v\<bar> + 1 / 2 \<and>
                       p = roundDouble (sgn v * of_int n / 100))))"

definition isDailyRow :: "Transaction multiset \<Rightarrow> instant \<Rightarrow> DailySummary \<Rightarrow> bool" where
  "isDailyRow ledger d row =
     (let ofDay = filter_mset (\<lambda>x. d \<le> timestamp x \<and> timestamp x < d + dayMs) ledger
      in balance row = B ledger (d + dayMs - 1) \<and>
         isPercentChange (B ledger (d - 1)) (B ledger (d + dayMs - 1)) (percentChange row) \<and>
         transactionCount row = size ofDay \<and>
         inAmount row = (\<Sum>x \<in># filter_mset (\<lambda>x. txn_type x = IN) ofDay. amount x) \<and>
         outAmount row = (\<Sum>x \<in># filter_mset (\<lambda>x. txn_type x = OUT) ofDay. amount x))"

text \<open>
  The rows a list of validated records becomes when each gets the next identifier,
  starting at \<open>k\<close>.
\<close>

fun rowsFrom :: "int \<Rightarrow> (instant \<times> TransactionType \<times> real) list \<Rightarrow> Transaction list" where
  "rowsFrom k [] = []"
| "rowsFrom k ((date, ty, numericAmount) # vs) =
     \<lparr>txn_id = k, timestamp = date, txn_type = ty, amount = numericAmount\<rparr> # rowsFrom (k + 1) vs"

section \<open>Example inputs\<close>

text \<open>
  A runtime for requests whose fields are numbers (it parses no string), and the body
  \<open>{timestamp: t, type: ty, amount: a}\<close>.
\<close>

definition noStrings :: Runtime where
  "noStrings =
     \<lparr>dateParse = (\<lambda>s. None), floatParse = (\<lambda>s. None),
      timestampStorable = (\<lambda>t. True), numberToString = (\<lambda>x. [])\<rparr>"

definition numericBody :: "int \<Rightarrow> string \<Rightarrow> real \<Rightarrow> TransactionBody" where
  "numericBody t ty a =
     \<lparr>body_timestamp = JNumber (real_of_int t), body_type = JString ty, body_amount = JNumber a\<rparr>"

text \<open>The table with the given rows, everything else empty.\<close>

definition stateOf :: "Transaction list \<Rightarrow> State" where
  "stateOf txns = initialState\<lparr>transactions := txns, nextId := 1 + int (length txns)\<rparr>"

definition txn :: "int \<Rightarrow> instant \<Rightarrow> TransactionType \<Rightarrow> real \<Rightarrow> Transaction" where
  "txn i t ty a = \<lparr>txn_id = i, timestamp = t, txn_type = ty, amount = a\<rparr>"

section \<open>Whole numbers are added without rounding\<close>











section \<open>The oracle computes the balance function on whole amounts\<close>








lemma getBalance_transactions [simp]:
  "transactions (snd (getBalanceAtTimestamp s t)) = transactions s"
  "nextId (snd (getBalanceAtTimestamp s t)) = nextId s"
  by (simp_all add: getBalanceAtTimestamp_def split: option.split)




lemma transactions_stateOf [simp]: "transactions (stateOf txns) = txns"
  by (simp add: stateOf_def initialState_def)

lemma balanceCache_stateOf [simp]: "balanceCache (stateOf txns) = []"
  by (simp add: stateOf_def initialState_def)





section \<open>What invalidation removes\<close>

lemma map_of_fold_delete:
  "map_of (fold AList.delete ks c) k = (if k \<in> set ks then None else map_of c k)"
  by (induction ks arbitrary: c) (auto simp: delete_conv')

lemma invalidate_lookup:
  "map_of (balanceCache (invalidateBalanceCache s t)) k =
     (if t \<le> k then None else map_of (balanceCache s) k)"
proof (cases "t \<le> k")
  case True
  show ?thesis
  proof (cases "k \<in> set (map fst (balanceCache s))")
    case True
    with \<open>t \<le> k\<close> show ?thesis
      by (auto simp: invalidateBalanceCache_def Let_def map_of_fold_delete filter_empty_conv)
  next
    case False
    then have "map_of (balanceCache s) k = None"
      by (simp add: map_of_eq_None_iff)
    with \<open>t \<le> k\<close> show ?thesis
      by (simp add: invalidateBalanceCache_def Let_def map_of_fold_delete)
  qed
next
  case False
  then show ?thesis
    by (auto simp: invalidateBalanceCache_def Let_def map_of_fold_delete)
qed

lemma invalidate_fields [simp]:
  "transactions (invalidateBalanceCache s t) = transactions s"
  "nextId (invalidateBalanceCache s t) = nextId s"
  "invalidTransactions (invalidateBalanceCache s t) = invalidTransactions s"
  "dailySummaries (invalidateBalanceCache s t) = dailySummaries s"
  "statsCache (invalidateBalanceCache s t) = statsCache s"
  "invalidCountCache (invalidateBalanceCache s t) = None"
  by (simp_all add: invalidateBalanceCache_def Let_def)

text \<open>
  \<open>invalidateBalanceCache(t)\<close> removes every cached balance keyed by an instant at or after
  \<open>t\<close>, leaves every cached balance keyed by an earlier instant as it was, and clears the
  cached count of invalid transactions. The cached statistics are left as they were.
\<close>

lemma invalidateFrom_effect:
  "map_of (balanceCache (invalidateBalanceCache s t)) k =
     (if t \<le> k then None else map_of (balanceCache s) k) \<and>
   invalidCountCache (invalidateBalanceCache s t) = None \<and>
   statsCache (invalidateBalanceCache s t) = statsCache s"
  by (simp add: invalidate_lookup)

lemma stats_initial:
  "getTransactionStats initialState =
     (\<lparr>totalTransactions = 0,
       inTransactions = \<lparr>count_of = 0, totalAmount = 0, averageAmount = 0, maxAmount = 0, minAmount = 0\<rparr>,
       outTransactions = \<lparr>count_of = 0, totalAmount = 0, averageAmount = 0, maxAmount = 0, minAmount = 0\<rparr>,
       currentBalance = 0\<rparr>,
      initialState\<lparr>statsCache := Some
        \<lparr>totalTransactions = 0,
         inTransactions = \<lparr>count_of = 0, totalAmount = 0, averageAmount = 0, maxAmount = 0, minAmount = 0\<rparr>,
         outTransactions = \<lparr>count_of = 0, totalAmount = 0, averageAmount = 0, maxAmount = 0, minAmount = 0\<rparr>,
         currentBalance = 0\<rparr>\<rparr>)"
  by (simp add: getTransactionStats_def initialState_def aggregateType_def maxOf_def minOf_def Let_def)

text \<open>
  Claim C5 fails on the code in its part on the statistics. \<open>invalidateBalanceCache\<close> does
  not delete the key \<open>transaction_stats\<close>: statistics cached on the empty table are still in
  the cache after the invalidation, and after \<open>createTransaction\<close> has written a row and
  invalidated, so that \<open>getTransactionStats\<close> reports no transaction on a table of one. The
  bulk loader, which flushes the whole cache, does clear them.
\<close>

theorem invalidate_keeps_stats_example:
  "statsCache (snd (getTransactionStats initialState)) \<noteq> None \<and>
   statsCache (invalidateBalanceCache (snd (getTransactionStats initialState)) 1000) =
     statsCache (snd (getTransactionStats initialState)) \<and>
   statsCache (snd (createTransaction noStrings 5000 (snd (getTransactionStats initialState))
              (numericBody 1000 ''IN'' 100))) =
     statsCache (snd (getTransactionStats initialState)) \<and>
   totalTransactions (fst (getTransactionStats
      (snd (createTransaction noStrings 5000 (snd (getTransactionStats initialState))
              (numericBody 1000 ''IN'' 100))))) = 0 \<and>
   length (transactions
      (snd (createTransaction noStrings 5000 (snd (getTransactionStats initialState))
              (numericBody 1000 ''IN'' 100)))) = 1 \<and>
   statsCache (snd (createBulkTransactions noStrings 5000 (snd (getTransactionStats initialState))
              [numericBody 1000 ''IN'' 100])) = None"
  unfolding stats_initial
  by (simp add: createTransaction_def validateCreate_def numericBody_def noStrings_def typeOf_def
      insertTransaction_def invalidateBalanceCache_def initialState_def getTransactionStats_def
      createBulkTransactions_def validateBulkRecord_def insertBatches.simps Let_def)

section \<open>The balance gate of create\<close>

lemma insertTransaction_result:
  "timestampStorable rt d \<Longrightarrow>
   fst (insertTransaction rt s d ty a) =
     Inr \<lparr>txn_id = nextId s, timestamp = d, txn_type = ty, amount = a\<rparr>"
  "timestampStorable rt d \<Longrightarrow>
   transactions (snd (insertTransaction rt s d ty a)) =
     transactions s @ [\<lparr>txn_id = nextId s, timestamp = d, txn_type = ty, amount = a\<rparr>]"
  "\<not> timestampStorable rt d \<Longrightarrow> insertTransaction rt s d ty a = (Inl FailedToCreate, s)"
  by (simp_all add: insertTransaction_def Let_def)

lemma insertTransaction_rejected:
  "fst (insertTransaction rt s d ty a) = Inl e \<Longrightarrow>
   e = FailedToCreate \<and> snd (insertTransaction rt s d ty a) = s"
  by (cases "timestampStorable rt d") (simp_all add: insertTransaction_def Let_def)

lemma create_rejected_unchanged:
  "fst (createTransaction rt now s body) = Inl e \<Longrightarrow>
   transactions (snd (createTransaction rt now s body)) = transactions s"
proof (cases "validateCreate rt now body")
  case (Inl e')
  then show ?thesis by (simp add: createTransaction_def)
next
  case (Inr v)
  obtain date ty a where v: "v = (date, ty, a)" by (cases v) auto
  assume rej: "fst (createTransaction rt now s body) = Inl e"
  show ?thesis
  proof (cases "ty = OUT")
    case False
    then have c: "createTransaction rt now s body = insertTransaction rt s date ty a"
      using Inr v by (simp add: createTransaction_def)
    show ?thesis using rej insertTransaction_rejected[of rt s date ty a e] unfolding c by simp
  next
    case True
    obtain r s1 where g: "getBalanceAtTimestamp s date = (r, s1)"
      by (cases "getBalanceAtTimestamp s date") auto
    have s1: "transactions s1 = transactions s"
      using getBalance_transactions(1)[of s date] g by simp
    show ?thesis
    proof (cases r)
      case None
      then show ?thesis using Inr v True g s1 by (simp add: createTransaction_def)
    next
      case (Some b)
      show ?thesis
      proof (cases "a > b")
        case True
        then show ?thesis using Inr v \<open>ty = OUT\<close> g s1 Some by (simp add: createTransaction_def)
      next
        case False
        then have c: "createTransaction rt now s body = insertTransaction rt s1 date ty a"
          using Inr v \<open>ty = OUT\<close> g Some by (simp add: createTransaction_def)
        show ?thesis
          using rej insertTransaction_rejected[of rt s1 date ty a e] s1 unfolding c by simp
      qed
    qed
  qed
qed

text \<open>
  Claim C4. A create request that passes validation with type \<open>OUT\<close> and an amount above
  the balance \<open>getBalanceAtTimestamp\<close> returns for its date is answered with the insufficient
  balance error, which carries that balance and the requested amount, and the table and
  the sequence of identifiers are unchanged. A valid request of type \<open>IN\<close> is never answered
  with the insufficient balance error: it is written whatever the balance is when the
  database can store its date, and answered with status 500, the table unchanged, when it
  cannot. Every rejected create leaves the table unchanged.
\<close>

theorem create_balance_gate:
  "(validateCreate rt now body = Inr (date, OUT, a) \<and>
    fst (getBalanceAtTimestamp s date) = Some b \<and> a > b \<longrightarrow>
      fst (createTransaction rt now s body) = Inl (InsufficientBalance b a) \<and>
      transactions (snd (createTransaction rt now s body)) = transactions s \<and>
      nextId (snd (createTransaction rt now s body)) = nextId s) \<and>
   (validateCreate rt now body = Inr (date, IN, a) \<longrightarrow>
      (\<forall>available requested.
         fst (createTransaction rt now s body) \<noteq> Inl (InsufficientBalance available requested)) \<and>
      (timestampStorable rt date \<longrightarrow>
         fst (createTransaction rt now s body) =
           Inr \<lparr>txn_id = nextId s, timestamp = date, txn_type = IN, amount = a\<rparr> \<and>
         transactions (snd (createTransaction rt now s body)) =
           transactions s @ [\<lparr>txn_id = nextId s, timestamp = date, txn_type = IN, amount = a\<rparr>]) \<and>
      (\<not> timestampStorable rt date \<longrightarrow>
         createTransaction rt now s body = (Inl FailedToCreate, s))) \<and>
   (\<forall>e. fst (createTransaction rt now s body) = Inl e \<longrightarrow>
      transactions (snd (createTransaction rt now s body)) = transactions s)"
proof (intro conjI impI allI)
  assume h: "validateCreate rt now body = Inr (date, OUT, a) \<and>
    fst (getBalanceAtTimestamp s date) = Some b \<and> a > b"
  obtain s1 where g: "getBalanceAtTimestamp s date = (Some b, s1)"
    using h by (cases "getBalanceAtTimestamp s date") auto
  have s1: "transactions s1 = transactions s" "nextId s1 = nextId s"
    using getBalance_transactions[of s date] g by simp_all
  have c: "createTransaction rt now s body = (Inl (InsufficientBalance b a), s1)"
    using h g by (simp add: createTransaction_def)
  show "fst (createTransaction rt now s body) = Inl (InsufficientBalance b a)"
    by (simp add: c)
  show "transactions (snd (createTransaction rt now s body)) = transactions s"
    by (simp add: c s1)
  show "nextId (snd (createTransaction rt now s body)) = nextId s"
    by (simp add: c s1)
next
  fix available requested
  assume h: "validateCreate rt now body = Inr (date, IN, a)"
  then have c: "createTransaction rt now s body = insertTransaction rt s date IN a"
    by (simp add: createTransaction_def)
  show "fst (createTransaction rt now s body) \<noteq> Inl (InsufficientBalance available requested)"
    unfolding c by (cases "timestampStorable rt date") (simp_all add: insertTransaction_def Let_def)
next
  assume h: "validateCreate rt now body = Inr (date, IN, a)" and st: "timestampStorable rt date"
  from h have c: "createTransaction rt now s body = insertTransaction rt s date IN a"
    by (simp add: createTransaction_def)
  show "fst (createTransaction rt now s body) =
        Inr \<lparr>txn_id = nextId s, timestamp = date, txn_type = IN, amount = a\<rparr>"
    unfolding c using st by (rule insertTransaction_result(1))
  show "transactions (snd (createTransaction rt now s body)) =
        transactions s @ [\<lparr>txn_id = nextId s, timestamp = date, txn_type = IN, amount = a\<rparr>]"
    unfolding c using st by (rule insertTransaction_result(2))
next
  assume h: "validateCreate rt now body = Inr (date, IN, a)" and st: "\<not> timestampStorable rt date"
  from h have c: "createTransaction rt now s body = insertTransaction rt s date IN a"
    by (simp add: createTransaction_def)
  show "createTransaction rt now s body = (Inl FailedToCreate, s)"
    unfolding c using st by (rule insertTransaction_result(3))
next
  fix e assume "fst (createTransaction rt now s body) = Inl e"
  then show "transactions (snd (createTransaction rt now s body)) = transactions s"
    by (rule create_rejected_unchanged)
qed

lemma validate_out_example:
  "validateCreate noStrings 5000 (numericBody 2000 ''OUT'' 150) = Inr (2000, OUT, 150)"
  by (simp add: validateCreate_def numericBody_def noStrings_def typeOf_def)

lemma validate_in_example:
  "validateCreate noStrings 5000 (numericBody 1000 ''IN'' 100) = Inr (1000, IN, 100)"
  by (simp add: validateCreate_def numericBody_def noStrings_def typeOf_def)

lemma validate_early_example:
  "validateCreate (noStrings\<lparr>timestampStorable := (\<lambda>t. 0 \<le> t)\<rparr>) 5000
     (numericBody (- 1000) ''IN'' 100) = Inr (- 1000, IN, 100)"
  by (simp add: validateCreate_def numericBody_def noStrings_def typeOf_def)

lemma balance_example:
  "fst (getBalanceAtTimestamp (stateOf [txn 1 1000 IN 100]) 2000) = Some 100"
  by (simp add: getBalanceAtTimestamp_def txn_def sumUpTo_def pgSum_def signedAmount_def Let_def)

theorem create_balance_gate_witness:
  "validateCreate noStrings 5000 (numericBody 2000 ''OUT'' 150) = Inr (2000, OUT, 150) \<and>
   fst (getBalanceAtTimestamp (stateOf [txn 1 1000 IN 100]) 2000) = Some 100 \<and>
   fst (createTransaction noStrings 5000 (stateOf [txn 1 1000 IN 100]) (numericBody 2000 ''OUT'' 150)) =
     Inl (InsufficientBalance 100 150) \<and>
   transactions (snd (createTransaction noStrings 5000 (stateOf [txn 1 1000 IN 100])
     (numericBody 2000 ''OUT'' 150))) = [txn 1 1000 IN 100] \<and>
   validateCreate noStrings 5000 (numericBody 1000 ''IN'' 100) = Inr (1000, IN, 100) \<and>
   timestampStorable noStrings 1000 \<and>
   fst (createTransaction noStrings 5000 initialState (numericBody 1000 ''IN'' 100)) =
     Inr (txn 1 1000 IN 100) \<and>
   validateCreate (noStrings\<lparr>timestampStorable := (\<lambda>t. 0 \<le> t)\<rparr>) 5000
     (numericBody (- 1000) ''IN'' 100) = Inr (- 1000, IN, 100) \<and>
   \<not> timestampStorable (noStrings\<lparr>timestampStorable := (\<lambda>t. 0 \<le> t)\<rparr>) (- 1000) \<and>
   createTransaction (noStrings\<lparr>timestampStorable := (\<lambda>t. 0 \<le> t)\<rparr>) 5000 initialState
     (numericBody (- 1000) ''IN'' 100) = (Inl FailedToCreate, initialState)"
  using create_balance_gate[of noStrings 5000 "numericBody 2000 ''OUT'' 150" 2000 150
          "stateOf [txn 1 1000 IN 100]" 100]
        create_balance_gate[of noStrings 5000 "numericBody 1000 ''IN'' 100" 1000 100 initialState]
        create_balance_gate[of "noStrings\<lparr>timestampStorable := (\<lambda>t. 0 \<le> t)\<rparr>" 5000
          "numericBody (- 1000) ''IN'' 100" "- 1000" 100 initialState]
        validate_out_example validate_in_example validate_early_example balance_example
  by (simp add: initialState_def txn_def noStrings_def)

section \<open>Validation on update\<close>

lemma writeUpdate_never_invalid_type:
  "fst (writeUpdate rt s existing d newType a) \<noteq> Inl InvalidTransactionType"
  by (simp add: writeUpdate_def Let_def split: option.splits)

lemma update_never_invalid_type:
  "fst (updateTransaction rt now s txnId body) \<noteq> Inl InvalidTransactionType"
  by (simp add: updateTransaction_def Let_def writeUpdate_never_invalid_type split: option.splits)

text \<open>
  Claim C6 fails on the code. \<open>createTransaction\<close> answers a type other than \<open>IN\<close> and \<open>OUT\<close>
  with status 400 and \<open>Invalid transaction type\<close>; \<open>updateTransaction\<close> has no such check, hands
  the value to the database client, and answers the refusal with status 500 and
  \<open>Failed to update transaction\<close>. The stored row is not modified.
\<close>

theorem update_invalid_type_example:
  "updateTransaction noStrings 5000 (stateOf [txn 1 1000 IN 100]) (Some 1)
     \<lparr>body_timestamp = JUndefined, body_type = JString ''FOO'', body_amount = JUndefined\<rparr> =
     (Inl FailedToUpdate, stateOf [txn 1 1000 IN 100]) \<and>
   statusCode FailedToUpdate = 500 \<and>
   isValidationError FailedToUpdate = False \<and>
   createTransaction noStrings 5000 (stateOf [txn 1 1000 IN 100]) (numericBody 2000 ''FOO'' 100) =
     (Inl InvalidTransactionType, stateOf [txn 1 1000 IN 100])"
  by (simp add: updateTransaction_def writeUpdate_def createTransaction_def validateCreate_def
      typeOf_def numericBody_def noStrings_def stateOf_def initialState_def txn_def Let_def)

section \<open>A falsy amount on update\<close>

lemma writeUpdate_amount:
  "fst (writeUpdate rt s existing d newType a) = Inr u \<Longrightarrow> amount u = a"
  by (auto simp: writeUpdate_def Let_def split: option.splits if_splits)

lemma writeUpdate_not_amount_error:
  "fst (writeUpdate rt s existing d newType a) \<noteq> Inl AmountMustBePositive"
  by (simp add: writeUpdate_def Let_def split: option.splits)

text \<open>
  Claim C10, as the code has it. An update whose amount is falsy (0, \<open>null\<close>, \<open>false\<close>, the
  empty string or absent) is answered exactly as the same request without the field: it is
  never rejected as a non-positive amount, and when it succeeds the amount of the row is
  the stored one. An update of an existing row whose amount is truthy and parses to a
  negative number is rejected with a validation error and changes nothing.
\<close>

theorem update_falsy_amount:
  "(\<not> truthy (body_amount body) \<longrightarrow>
      updateTransaction rt now s txnId body =
        updateTransaction rt now s txnId (body\<lparr>body_amount := JUndefined\<rparr>) \<and>
      fst (updateTransaction rt now s txnId body) \<noteq> Inl AmountMustBePositive \<and>
      (\<forall>u existing. fst (updateTransaction rt now s txnId body) = Inr u \<and>
          txnId = Some i \<and> find (\<lambda>x. txn_id x = i) (transactions s) = Some existing \<longrightarrow>
          amount u = amount existing)) \<and>
   (find (\<lambda>x. txn_id x = i) (transactions s) = Some existing \<and> truthy (body_amount body) \<and>
    parseFloat rt (body_amount body) = Some a \<and> a < 0 \<longrightarrow>
      (\<exists>e. updateTransaction rt now s (Some i) body = (Inl e, s) \<and> isValidationError e))"
proof (intro conjI impI allI)
  assume f: "\<not> truthy (body_amount body)"
  then show "updateTransaction rt now s txnId body =
        updateTransaction rt now s txnId (body\<lparr>body_amount := JUndefined\<rparr>)"
    by (simp add: updateTransaction_def Let_def split: option.splits)
  from f show "fst (updateTransaction rt now s txnId body) \<noteq> Inl AmountMustBePositive"
    by (simp add: updateTransaction_def Let_def writeUpdate_not_amount_error split: option.splits)
  fix u existing
  assume "fst (updateTransaction rt now s txnId body) = Inr u \<and>
          txnId = Some i \<and> find (\<lambda>x. txn_id x = i) (transactions s) = Some existing"
  with f show "amount u = amount existing"
    by (auto simp: updateTransaction_def Let_def split: option.splits if_splits
             dest: writeUpdate_amount)
next
  assume "find (\<lambda>x. txn_id x = i) (transactions s) = Some existing \<and> truthy (body_amount body) \<and>
    parseFloat rt (body_amount body) = Some a \<and> a < 0"
  then show "\<exists>e. updateTransaction rt now s (Some i) body = (Inl e, s) \<and> isValidationError e"
    by (auto simp: updateTransaction_def Let_def split: option.splits)
qed

lemma update_zero_example:
  "updateTransaction noStrings 5000 (stateOf [txn 1 1000 IN 100]) (Some 1)
     \<lparr>body_timestamp = JUndefined, body_type = JUndefined, body_amount = JNumber 0\<rparr> =
     (Inr (txn 1 1000 IN 100), stateOf [txn 1 1000 IN 100])"
  by (simp add: updateTransaction_def writeUpdate_def typeOf_def invalidateBalanceCache_def
      noStrings_def stateOf_def initialState_def txn_def Let_def)

lemma update_negative_example:
  "updateTransaction noStrings 5000 (stateOf [txn 1 1000 IN 100]) (Some 1)
     \<lparr>body_timestamp = JUndefined, body_type = JUndefined, body_amount = JNumber (- 5)\<rparr> =
     (Inl AmountMustBePositive, stateOf [txn 1 1000 IN 100])"
  by (simp add: updateTransaction_def stateOf_def initialState_def txn_def Let_def)

theorem update_falsy_amount_witness:
  "\<not> truthy (JNumber 0) \<and>
   updateTransaction noStrings 5000 (stateOf [txn 1 1000 IN 100]) (Some 1)
     \<lparr>body_timestamp = JUndefined, body_type = JUndefined, body_amount = JNumber 0\<rparr> =
   updateTransaction noStrings 5000 (stateOf [txn 1 1000 IN 100]) (Some 1)
     \<lparr>body_timestamp = JUndefined, body_type = JUndefined, body_amount = JUndefined\<rparr> \<and>
   fst (updateTransaction noStrings 5000 (stateOf [txn 1 1000 IN 100]) (Some 1)
     \<lparr>body_timestamp = JUndefined, body_type = JUndefined, body_amount = JNumber 0\<rparr>) =
     Inr (txn 1 1000 IN 100) \<and>
   find (\<lambda>x. txn_id x = 1) (transactions (stateOf [txn 1 1000 IN 100])) = Some (txn 1 1000 IN 100) \<and>
   truthy (JNumber (- 5)) \<and> parseFloat noStrings (JNumber (- 5)) = Some (- 5) \<and>
   (\<exists>e. updateTransaction noStrings 5000 (stateOf [txn 1 1000 IN 100]) (Some 1)
          \<lparr>body_timestamp = JUndefined, body_type = JUndefined, body_amount = JNumber (- 5)\<rparr> =
          (Inl e, stateOf [txn 1 1000 IN 100]) \<and> isValidationError e)"
  using update_falsy_amount[of "\<lparr>body_timestamp = JUndefined, body_type = JUndefined,
            body_amount = JNumber 0\<rparr>" noStrings 5000 "stateOf [txn 1 1000 IN 100]" "Some 1" 1
            "txn 1 1000 IN 100" "- 5"]
        update_falsy_amount[of "\<lparr>body_timestamp = JUndefined, body_type = JUndefined,
            body_amount = JNumber (- 5)\<rparr>" noStrings 5000 "stateOf [txn 1 1000 IN 100]" "Some 1" 1
            "txn 1 1000 IN 100" "- 5"]
        update_zero_example
  by (simp add: stateOf_def initialState_def txn_def)

text \<open>
  The claim as stated has every such update succeed. It does not: the request is still
  subject to the other checks. After \<open>IN 100\<close> and \<open>OUT 100\<close> were created at one instant and
  the \<open>IN\<close> was deleted, an update of the \<open>OUT\<close> with amount 0 goes on with the stored amount
  100 and fails the balance gate.
\<close>

theorem update_zero_amount_counterexample:
  "snd (deleteTransaction
     (snd (createTransaction noStrings 5000
        (snd (createTransaction noStrings 5000 initialState (numericBody 1000 ''IN'' 100)))
        (numericBody 1000 ''OUT'' 100)))
     (Some 1)) = (stateOf [txn 2 1000 OUT 100])\<lparr>nextId := 3\<rparr> \<and>
   updateTransaction noStrings 5000 ((stateOf [txn 2 1000 OUT 100])\<lparr>nextId := 3\<rparr>) (Some 2)
     \<lparr>body_timestamp = JUndefined, body_type = JUndefined, body_amount = JNumber 0\<rparr> =
     (Inl (InsufficientBalanceForUpdate 0 100), (stateOf [txn 2 1000 OUT 100])\<lparr>nextId := 3\<rparr>)"
  by (simp add: updateTransaction_def deleteTransaction_def createTransaction_def validateCreate_def
      insertTransaction_def getBalanceAtTimestamp_def getBalanceExcludingTransaction_def
      sumUpTo_def pgSum_def signedAmount_def invalidateBalanceCache_def
      typeOf_def numericBody_def noStrings_def stateOf_def initialState_def txn_def Let_def)

section \<open>Bulk loader: validation and duplicates\<close>

lemma validateBulkRecord_error:
  "validateBulkRecord rt now r = Inl e \<Longrightarrow> isValidationError e"
  by (auto simp: validateBulkRecord_def split: if_splits option.splits)

lemma validateAll_error:
  "validateAll rt now rs = Inl e \<Longrightarrow> isValidationError e"
  by (induction rs) (auto split: sum.splits dest: validateBulkRecord_error)

lemma validateAll_invalid_record:
  "r \<in> set rs \<Longrightarrow> validateBulkRecord rt now r = Inl e \<Longrightarrow> \<exists>e'. validateAll rt now rs = Inl e'"
  by (induction rs) (auto split: sum.splits)

lemma bulk_invalid_record_rejected:
  assumes "r \<in> set rs" "validateBulkRecord rt now r = Inl e"
  shows "\<exists>e'. createBulkTransactions rt now s rs = (Inl e', s) \<and> isValidationError e'"
proof -
  obtain e' where e': "validateAll rt now rs = Inl e'"
    using validateAll_invalid_record[OF assms] by blast
  then have "isValidationError e'" by (rule validateAll_error)
  with e' show ?thesis by (auto simp: createBulkTransactions_def)
qed

lemma validation_same_as_create:
  "(\<exists>v. validateBulkRecord rt now r = Inr v) = (\<exists>v. validateCreate rt now r = Inr v)"
  "validateBulkRecord rt now r = Inr v \<longleftrightarrow> validateCreate rt now r = Inr v"
  by (auto simp: validateBulkRecord_def validateCreate_def split: if_splits option.splits)

text \<open>
  Claim C8 fails on the code in its part on duplicates. The batch is validated as a whole
  before anything is written (\<open>bulk_invalid_record_rejected\<close>, and \<open>bulk_all_valid\<close> below
  for the batch without a fault), but \<open>skipDuplicates\<close> compares unique keys only and the
  table has none but the generated \<open>id\<close>: of two records equal in every field both are
  written.
\<close>

theorem bulk_duplicates_example:
  "createBulkTransactions noStrings 5000 initialState
     [numericBody 1000 ''IN'' 100, numericBody 1000 ''IN'' 100] =
     (Inr 2, stateOf [txn 1 1000 IN 100, txn 2 1000 IN 100])"
  by (simp add: createBulkTransactions_def validateBulkRecord_def insertBatches.simps
      typeOf_def numericBody_def noStrings_def stateOf_def initialState_def txn_def Let_def)

text \<open>
  The scenario of the specification: three valid records and one with a negative amount.
\<close>

lemma bulk_scenario:
  "createBulkTransactions noStrings 5000 initialState
     [numericBody 1000 ''IN'' 100, numericBody 2000 ''IN'' 50, numericBody 3000 ''OUT'' 20,
      numericBody 4000 ''IN'' (- 5)] = (Inl InvalidAmount, initialState)"
  by (simp add: createBulkTransactions_def validateBulkRecord_def
      typeOf_def numericBody_def noStrings_def Let_def)

section \<open>Bulk loader: a valid batch is written whole\<close>

lemma createMany_ids:
  "idsWellFormed s \<Longrightarrow> idsWellFormed (fst (createMany s batch n))"
proof (induction s batch n rule: createMany.induct)
  case (1 s n)
  then show ?case by simp
next
  case (2 s date ty numericAmount batch n)
  let ?row = "\<lparr>txn_id = nextId s, timestamp = date, txn_type = ty, amount = numericAmount\<rparr>"
  have a: "idsWellFormed (s\<lparr>nextId := nextId s + 1\<rparr>)"
    using "2.prems" by (fastforce simp: idsWellFormed_def)
  have b: "idsWellFormed (s\<lparr>transactions := transactions s @ [?row], nextId := nextId s + 1\<rparr>)"
    using "2.prems" by (fastforce simp: idsWellFormed_def)
  show ?case
    using "2.IH"(1)[OF refl _ a] "2.IH"(2)[OF refl _ b]
    by (auto simp: Let_def)
qed

lemma rowsFrom_append:
  "rowsFrom k (xs @ ys) = rowsFrom k xs @ rowsFrom (k + int (length xs)) ys"
  by (induction k xs rule: rowsFrom.induct) (simp_all add: algebra_simps)

lemma createMany_rows:
  "idsWellFormed s \<Longrightarrow>
   createMany s batch n =
     (s\<lparr>transactions := transactions s @ rowsFrom (nextId s) batch,
        nextId := nextId s + int (length batch)\<rparr>, n + length batch)"
proof (induction s batch n rule: createMany.induct)
  case (1 s n)
  then show ?case by simp
next
  case (2 s date ty numericAmount batch n)
  let ?row = "\<lparr>txn_id = nextId s, timestamp = date, txn_type = ty, amount = numericAmount\<rparr>"
  let ?s2 = "s\<lparr>transactions := transactions s @ [?row], nextId := nextId s + 1\<rparr>"
  have fresh: "nextId s \<notin> set (map txn_id (transactions s))"
    using "2.prems" by (auto simp: idsWellFormed_def)
  have wf: "idsWellFormed ?s2"
    using "2.prems" by (fastforce simp: idsWellFormed_def)
  have "createMany ?s2 batch (n + 1) =
          (?s2\<lparr>transactions := transactions ?s2 @ rowsFrom (nextId ?s2) batch,
               nextId := nextId ?s2 + int (length batch)\<rparr>, n + 1 + length batch)"
    using "2.IH"(2)[OF refl fresh wf] .
  then show ?case
    using fresh by (simp add: Let_def)
qed

lemma insertBatches_rows:
  "idsWellFormed s \<Longrightarrow> list_all (\<lambda>v. timestampStorable rt (fst v)) vs \<Longrightarrow>
   insertBatches rt s vs i created =
     (s\<lparr>transactions := transactions s @ rowsFrom (nextId s) (drop i vs),
        nextId := nextId s + int (length vs - i)\<rparr>, Some (created + (length vs - i)))"
proof (induction rt s vs i created rule: insertBatches.induct)
  case (1 rt s vs i created)
  show ?case
  proof (cases "i < length vs")
    case False
    then show ?thesis by (subst insertBatches.simps) simp
  next
    case True
    let ?batch = "take 1000 (drop i vs)"
    let ?s1 = "s\<lparr>transactions := transactions s @ rowsFrom (nextId s) ?batch,
                  nextId := nextId s + int (length ?batch)\<rparr>"
    have storable: "list_all (\<lambda>v. timestampStorable rt (fst v)) ?batch"
      using "1.prems"(2) by (auto simp: list_all_iff dest: in_set_takeD in_set_dropD)
    have cm: "createMany s ?batch 0 = (?s1, length ?batch)"
      using createMany_rows[OF "1.prems"(1), of ?batch 0] by simp
    have wf: "idsWellFormed ?s1"
      using createMany_ids[OF "1.prems"(1), of ?batch 0] cm by simp
    have ih: "insertBatches rt ?s1 vs (i + 1000) (created + length ?batch) =
        (?s1\<lparr>transactions := transactions ?s1 @ rowsFrom (nextId ?s1) (drop (i + 1000) vs),
             nextId := nextId ?s1 + int (length vs - (i + 1000))\<rparr>,
         Some (created + length ?batch + (length vs - (i + 1000))))"
      using "1.IH"[OF True refl storable refl cm[symmetric] wf "1.prems"(2)] .
    have parts: "drop i vs = ?batch @ drop (i + 1000) vs"
      by (metis add.commute append_take_drop_id drop_drop)
    have rows: "rowsFrom (nextId s) (drop i vs) =
        rowsFrom (nextId s) ?batch @ rowsFrom (nextId s + int (length ?batch)) (drop (i + 1000) vs)"
      by (subst parts) (rule rowsFrom_append)
    have len: "length ?batch + (length vs - (i + 1000)) = length vs - i"
      using True by simp
    have "insertBatches rt s vs i created =
            insertBatches rt ?s1 vs (i + 1000) (created + length ?batch)"
      using True cm storable by (subst insertBatches.simps) (simp add: Let_def)
    also note ih
    finally show ?thesis
      using len by (simp add: rows)
  qed
qed

lemma bulk_all_valid:
  assumes "validateAll rt now txns = Inr vs" "txns \<noteq> []" "idsWellFormed s"
    and "list_all (\<lambda>v. timestampStorable rt (fst v)) vs"
  shows "createBulkTransactions rt now s txns =
           (Inr (length vs),
            s\<lparr>transactions := transactions s @ rowsFrom (nextId s) (sort_key fst vs),
              nextId := nextId s + int (length vs),
              balanceCache := [], invalidCountCache := None, statsCache := None\<rparr>)"
proof -
  have "list_all (\<lambda>v. timestampStorable rt (fst v)) (sort_key fst vs)"
    using assms(4) by (simp add: list_all_iff)
  then show ?thesis
    using assms(1,2) insertBatches_rows[OF assms(3), of rt "sort_key fst vs" 0 0]
    by (simp add: createBulkTransactions_def)
qed

section \<open>Batch balance query against the oracle\<close>

lemma getBalancesAtTimestamps_raises: "getBalancesAtTimestamps s timestamps = None"
  by (simp add: getBalancesAtTimestamps_def batchQuery_def)

text \<open>
  Claim C3 fails on the code. The query of \<open>getBalancesAtTimestamps\<close> is refused by the
  database, so the function raises where the claim has it return a map: for the log
  \<open>[IN 100 at 1]\<close> and the instant 1 it raises, while the oracle gives 100.
\<close>

theorem balancesAt_raises_example:
  "getBalancesAtTimestamps (stateOf [txn 1 1 IN 100]) [1] = None \<and>
   fst (getBalanceAtTimestamp (stateOf [txn 1 1 IN 100]) 1) = Some 100"
  by (simp add: getBalancesAtTimestamps_def batchQuery_def
      getBalanceAtTimestamp_def sumUpTo_def pgSum_def signedAmount_def txn_def Let_def)

end
